theory Spec2Isabelle
  imports Main
begin

section \<open>JavaScript numbers as their canonical decimal\<close>

text \<open>
  A \<^verbatim>\<open>number\<close> is kept as the decimal that ECMAScript's \<^verbatim>\<open>Number::toString\<close>
  prints for it, the shortest one that reads back as the same number: \<open>Finite neg s e\<close>
  stands for \<open>(-1)^neg * s * 10^e\<close> (so \<open>70.5\<close> is \<open>Finite False 705 (-1)\<close> and \<open>1e-7\<close> is
  \<open>Finite False 1 (-7)\<close>), with \<open>s = 0\<close> for zero. The sign, the comparison with zero and
  the printed text are all that the code under study asks of a weight.
\<close>

datatype jsnum = NaN | Infinity bool | Finite bool nat int

fun gt_zero :: "jsnum \<Rightarrow> bool" where
  "gt_zero NaN = False"
| "gt_zero (Infinity neg) = (\<not> neg)"
| "gt_zero (Finite neg s e) = (\<not> neg \<and> 0 < s)"

fun isNaN :: "jsnum \<Rightarrow> bool" where
  "isNaN NaN = True"
| "isNaN _ = False"

definition digit_char :: "nat \<Rightarrow> char" where
  "digit_char d = ''0123456789'' ! d"

fun digits :: "nat \<Rightarrow> string" where
  "digits n = (if n < 10 then [digit_char n] else digits (n div 10) @ [digit_char (n mod 10)])"

declare digits.simps [simp del]

text \<open>Trailing zeros of the digit string move into the exponent, so that the digit
  count \<open>k\<close> is as small as possible.\<close>

fun strip_zeros :: "nat \<Rightarrow> int \<Rightarrow> nat \<times> int" where
  "strip_zeros s e = (if s \<noteq> 0 \<and> s mod 10 = 0 then strip_zeros (s div 10) (e + 1) else (s, e))"

declare strip_zeros.simps [simp del]

definition exponent_part :: "int \<Rightarrow> string" where
  "exponent_part n = CHR ''e'' # (if 0 \<le> n - 1 then CHR ''+'' else CHR ''-'') # digits (nat \<bar>n - 1\<bar>)"

text \<open>\<^verbatim>\<open>Number::toString\<close> for radix 10, on a positive finite value with digit
  string \<open>ds\<close> (length \<open>k\<close>) and decimal point position \<open>n\<close>.\<close>

definition positive_toString :: "string \<Rightarrow> int \<Rightarrow> string" where
  "positive_toString ds n =
     (let k = int (length ds) in
      if k \<le> n \<and> n \<le> 21 then ds @ replicate (nat (n - k)) CHR ''0''
      else if 0 < n \<and> n \<le> 21 then take (nat n) ds @ CHR ''.'' # drop (nat n) ds
      else if -6 < n \<and> n \<le> 0 then ''0.'' @ replicate (nat (- n)) CHR ''0'' @ ds
      else if k = 1 then ds @ exponent_part n
      else take 1 ds @ CHR ''.'' # drop 1 ds @ exponent_part n)"

fun toString :: "jsnum \<Rightarrow> string" where
  "toString NaN = ''NaN''"
| "toString (Infinity neg) = (if neg then ''-Infinity'' else ''Infinity'')"
| "toString (Finite neg s e) =
     (if s = 0 then ''0''
      else let (s', e') = strip_zeros s e; ds = digits s'
           in (if neg then ''-'' else '''') @ positive_toString ds (e' + int (length ds)))"

text \<open>\<^verbatim>\<open>String.prototype.split('.')\<close>: the pieces between the dots.\<close>

fun split_dot :: "string \<Rightarrow> string list" where
  "split_dot [] = [[]]"
| "split_dot (c # cs) =
     (if c = CHR ''.'' then [] # split_dot cs
      else (case split_dot cs of p # ps \<Rightarrow> (c # p) # ps | [] \<Rightarrow> [[c]]))"

text \<open>\<^verbatim>\<open>(x.toString().split('.')[1] || '').length\<close>\<close>

definition decimalPlaces :: "jsnum \<Rightarrow> nat" where
  "decimalPlaces x = (case split_dot (toString x) of _ # p # _ \<Rightarrow> length p | _ \<Rightarrow> 0)"

section \<open>Domain model: Task, Attempt, Day\<close>

record Task =
  task_id :: string
  title :: string
  task_completed :: bool

text \<open>\<^verbatim>\<open>DEFAULT_TASKS\<close>: the built-in template, as (id, title) pairs.\<close>

definition DEFAULT_TASKS :: "(string \<times> string) list" where
  "DEFAULT_TASKS =
     [(''workout'', ''45 min workout''),
      (''rawdogging'', ''10 min rawdogging''),
      (''reading'', ''Read 10 pages''),
      (''water'', ''Drink 2L water'')]"

definition createTask :: "string \<Rightarrow> string \<Rightarrow> bool \<Rightarrow> Task" where
  "createTask i t c = \<lparr>task_id = i, title = t, task_completed = c\<rparr>"

definition createDefaultTasks :: "Task list" where
  "createDefaultTasks = map (\<lambda>(i, t). createTask i t False) DEFAULT_TASKS"

datatype Mood = happy | sad | angry | fearful | strong | excited | calm | tired

text \<open>An optional field that is \<^verbatim>\<open>undefined\<close> (or a \<^verbatim>\<open>null\<close> timestamp) is \<open>None\<close>.\<close>

record Attempt =
  number :: nat
  timestamp :: "string option"
  photoUri :: "string option"
  mood :: "Mood option"
  weight :: "jsnum option"
  tasks :: "Task list"
  completed :: bool

definition createAttempt :: "nat \<Rightarrow> Task list \<Rightarrow> Attempt" where
  "createAttempt n ts =
     \<lparr>number = n, timestamp = None, photoUri = None, mood = None, weight = None,
      tasks = map (\<lambda>t. t\<lparr>task_completed := False\<rparr>) ts, completed = False\<rparr>"

definition isAttemptComplete :: "Attempt \<Rightarrow> bool" where
  "isAttemptComplete attempt =
     (let allTasksCompleted = list_all task_completed (tasks attempt);
          hasMood = (mood attempt \<noteq> None);
          hasPhoto = (photoUri attempt \<noteq> None \<and> photoUri attempt \<noteq> Some '''');
          hasWeight = (case weight attempt of None \<Rightarrow> False | Some w \<Rightarrow> gt_zero w)
      in allTasksCompleted \<and> hasMood \<and> hasPhoto \<and> hasWeight)"

text \<open>\<^verbatim>\<open>completeAttempt\<close>; the clock reading \<^verbatim>\<open>new Date().toISOString()\<close> is the
  argument \<open>now\<close>.\<close>

definition completeAttempt :: "string \<Rightarrow> Attempt \<Rightarrow> Attempt" where
  "completeAttempt now attempt = attempt\<lparr>completed := True, timestamp := Some now\<rparr>"

record Day =
  index :: int
  date :: string
  attempts :: "Attempt list"

definition createDay :: "int \<Rightarrow> string \<Rightarrow> Day" where
  "createDay i d = \<lparr>index = i, date = d, attempts = [createAttempt 1 createDefaultTasks]\<rparr>"

text \<open>An array read \<^verbatim>\<open>xs[i]\<close>: \<^verbatim>\<open>undefined\<close> (\<open>None\<close>) outside the array; nothing
  is thrown.\<close>

definition at_index :: "'a list \<Rightarrow> int \<Rightarrow> 'a option" where
  "at_index xs i = (if 0 \<le> i \<and> nat i < length xs then Some (xs ! nat i) else None)"

text \<open>\<^verbatim>\<open>day.attempts[day.attempts.length - 1]\<close>\<close>

definition getCurrentAttempt :: "Day \<Rightarrow> Attempt option" where
  "getCurrentAttempt day = at_index (attempts day) (int (length (attempts day)) - 1)"

definition isDayCompleted :: "Day \<Rightarrow> bool" where
  "isDayCompleted day = list_ex completed (attempts day)"

definition getCompletedAttempt :: "Day \<Rightarrow> Attempt option" where
  "getCompletedAttempt day = find completed (attempts day)"

definition addNewAttempt :: "Day \<Rightarrow> Day" where
  "addNewAttempt day =
     (let defaultTasks = createDefaultTasks;
          newAttemptNumber = length (attempts day) + 1;
          newAttempt = createAttempt newAttemptNumber defaultTasks
      in day\<lparr>attempts := attempts day @ [newAttempt]\<rparr>)"

text \<open>\<^verbatim>\<open>attempts[attempts.length - 1] = updatedAttempt\<close> on a copy: on an empty array
  the write goes to the property \<open>-1\<close> and the array stays empty.\<close>

definition updateCurrentAttempt :: "Day \<Rightarrow> Attempt \<Rightarrow> Day" where
  "updateCurrentAttempt day updatedAttempt =
     (if attempts day = [] then day
      else day\<lparr>attempts := butlast (attempts day) @ [updatedAttempt]\<rparr>)"

section \<open>StorageService: the persisted challenge\<close>

text \<open>
  The key-value store is a map from keys to stored values together with the log of the
  mutating calls made on it. \<^verbatim>\<open>JSON.stringify\<close> followed by \<^verbatim>\<open>JSON.parse\<close> is taken as
  the identity, so the store holds the value itself; the operations of the store do not
  fail (as with the in-memory store the test setup installs).
\<close>

datatype storage_op = SetItem string | RemoveItem string

record 'v AsyncStorage =
  items :: "string \<rightharpoonup> 'v"
  oplog :: "storage_op list"

definition setItem :: "string \<Rightarrow> 'v \<Rightarrow> 'v AsyncStorage \<Rightarrow> 'v AsyncStorage" where
  "setItem k v s = s\<lparr>items := (items s)(k \<mapsto> v), oplog := oplog s @ [SetItem k]\<rparr>"

definition removeItem :: "string \<Rightarrow> 'v AsyncStorage \<Rightarrow> 'v AsyncStorage" where
  "removeItem k s = s\<lparr>items := (items s)(k := None), oplog := oplog s @ [RemoveItem k]\<rparr>"

definition getItem :: "string \<Rightarrow> 'v AsyncStorage \<Rightarrow> 'v option" where
  "getItem k s = items s k"

definition CHALLENGE_DATA :: string where
  "CHALLENGE_DATA = ''75hard_state_v1''"

definition CHALLENGE_START_DATE :: string where
  "CHALLENGE_START_DATE = ''75hard_start_date_v1''"

definition WEIGHT_UNIT_PREFERENCE :: string where
  "WEIGHT_UNIT_PREFERENCE = ''75hard_weight_unit_v1''"

record ChallengeData =
  version :: int
  startDate :: string
  days :: "Day list"
  currentDayIndex :: int

definition CURRENT_VERSION :: int where
  "CURRENT_VERSION = 1"

definition saveChallengeData :: "'v \<Rightarrow> 'v AsyncStorage \<Rightarrow> 'v AsyncStorage" where
  "saveChallengeData challengeData s = setItem CHALLENGE_DATA challengeData s"

definition migrateData ::
  "ChallengeData \<Rightarrow> ChallengeData AsyncStorage \<Rightarrow> ChallengeData \<times> ChallengeData AsyncStorage" where
  "migrateData oldData s =
     (let migratedData = oldData\<lparr>version := CURRENT_VERSION\<rparr>
      in (migratedData, saveChallengeData migratedData s))"

definition loadChallengeData ::
  "ChallengeData AsyncStorage \<Rightarrow> ChallengeData option \<times> ChallengeData AsyncStorage" where
  "loadChallengeData s =
     (case getItem CHALLENGE_DATA s of
        None \<Rightarrow> (None, s)
      | Some challengeData \<Rightarrow>
          if version challengeData \<noteq> CURRENT_VERSION
          then (let (m, s') = migrateData challengeData s in (Some m, s'))
          else (Some challengeData, s))"

definition saveDays :: "Day list \<Rightarrow> ChallengeData AsyncStorage \<Rightarrow> ChallengeData AsyncStorage" where
  "saveDays ds s =
     (case loadChallengeData s of
        (None, s') \<Rightarrow> s'
      | (Some challengeData, s') \<Rightarrow> saveChallengeData (challengeData\<lparr>days := ds\<rparr>) s')"

definition updateDay ::
  "ChallengeData \<Rightarrow> Day \<Rightarrow> ChallengeData AsyncStorage \<Rightarrow> ChallengeData \<times> ChallengeData AsyncStorage" where
  "updateDay challengeData updatedDay s =
     (let updatedDays = map (\<lambda>day. if index day = index updatedDay then updatedDay else day)
                            (days challengeData);
          updatedChallengeData = challengeData\<lparr>days := updatedDays\<rparr>
      in (updatedChallengeData, saveChallengeData updatedChallengeData s))"

definition updateDays ::
  "ChallengeData \<Rightarrow> Day list \<Rightarrow> ChallengeData AsyncStorage \<Rightarrow> ChallengeData \<times> ChallengeData AsyncStorage" where
  "updateDays challengeData updatedDays s =
     (let updatedChallengeData = challengeData\<lparr>days := updatedDays\<rparr>
      in (updatedChallengeData, saveChallengeData updatedChallengeData s))"

definition updateCurrentDayIndex ::
  "ChallengeData \<Rightarrow> int \<Rightarrow> ChallengeData AsyncStorage \<Rightarrow> ChallengeData \<times> ChallengeData AsyncStorage" where
  "updateCurrentDayIndex challengeData newIndex s =
     (let updatedChallengeData = challengeData\<lparr>currentDayIndex := max 1 (min 75 newIndex)\<rparr>
      in (updatedChallengeData, saveChallengeData updatedChallengeData s))"

definition clearChallengeData :: "'v AsyncStorage \<Rightarrow> 'v AsyncStorage" where
  "clearChallengeData s = removeItem CHALLENGE_START_DATE (removeItem CHALLENGE_DATA s)"

section \<open>AppContext: the in-memory state and its actions\<close>

record AppState =
  st_days :: "Day list"
  st_currentDayIndex :: int
  st_startDate :: "string option"
  isLoading :: bool
  st_error :: "string option"

datatype AppAction =
    SET_LOADING bool
  | SET_ERROR "string option"
  | LOAD_DAYS_SUCCESS "Day list"
  | UPDATE_DAY nat Day
  | SET_CURRENT_DAY int
  | SET_START_DATE string

text \<open>\<^verbatim>\<open>UPDATE_DAY\<close> assigns \<^verbatim>\<open>updatedDays[dayIndex]\<close> on a copy: inside the array it
  replaces the element, at the end it appends. Every dispatch of this action in the code
  comes with an index of an existing day, or walks the indices upwards from 0, so an
  assignment past the end (which would leave holes) does not arise; it is kept as an
  append.\<close>

fun appReducer :: "AppState \<Rightarrow> AppAction \<Rightarrow> AppState" where
  "appReducer state (SET_LOADING b) = state\<lparr>isLoading := b\<rparr>"
| "appReducer state (SET_ERROR e) = state\<lparr>st_error := e, isLoading := False\<rparr>"
| "appReducer state (LOAD_DAYS_SUCCESS ds) = state\<lparr>st_days := ds, isLoading := False, st_error := None\<rparr>"
| "appReducer state (UPDATE_DAY dayIndex day) =
     state\<lparr>st_days := (if dayIndex < length (st_days state) then (st_days state)[dayIndex := day]
                        else st_days state @ [day])\<rparr>"
| "appReducer state (SET_CURRENT_DAY i) = state\<lparr>st_currentDayIndex := i\<rparr>"
| "appReducer state (SET_START_DATE d) = state\<lparr>st_startDate := Some d\<rparr>"

record World =
  app :: AppState
  disk :: "ChallengeData AsyncStorage"

text \<open>\<^verbatim>\<open>actions.updateDay\<close>: dispatch, then reload the stored challenge and rewrite it.\<close>

definition actions_updateDay :: "nat \<Rightarrow> Day \<Rightarrow> World \<Rightarrow> World" where
  "actions_updateDay dayIndex day w =
     (let a = appReducer (app w) (UPDATE_DAY dayIndex day) in
      case loadChallengeData (disk w) of
        (None, s) \<Rightarrow> \<lparr>app = a, disk = s\<rparr>
      | (Some challengeData, s) \<Rightarrow> \<lparr>app = a, disk = snd (updateDay challengeData day s)\<rparr>)"

text \<open>\<^verbatim>\<open>days.forEach((day, index) => dispatch(UPDATE_DAY))\<close>\<close>

fun dispatchEach :: "nat \<Rightarrow> Day list \<Rightarrow> AppState \<Rightarrow> AppState" where
  "dispatchEach i [] state = state"
| "dispatchEach i (day # rest) state = dispatchEach (Suc i) rest (appReducer state (UPDATE_DAY i day))"

definition actions_updateDays :: "Day list \<Rightarrow> World \<Rightarrow> World" where
  "actions_updateDays ds w =
     (let a = dispatchEach 0 ds (app w) in
      case loadChallengeData (disk w) of
        (None, s) \<Rightarrow> \<lparr>app = a, disk = s\<rparr>
      | (Some challengeData, s) \<Rightarrow> \<lparr>app = a, disk = snd (updateDays challengeData ds s)\<rparr>)"

definition getCompletedDaysCount :: "AppState \<Rightarrow> nat" where
  "getCompletedDaysCount state = length (filter isDayCompleted (st_days state))"

definition getStreakCount :: "AppState \<Rightarrow> nat" where
  "getStreakCount state = length (takeWhile isDayCompleted (st_days state))"

section \<open>ValidationService\<close>

record WeightValidation =
  w_isValid :: bool
  w_error :: "string option"
  w_value :: "jsnum option"

text \<open>\<^verbatim>\<open>validateWeight\<close> on a \<^verbatim>\<open>number\<close> argument (the \<^verbatim>\<open>parseFloat\<close> of a string
  argument happens before anything modelled here).\<close>

definition validateWeight :: "jsnum \<Rightarrow> WeightValidation" where
  "validateWeight numericWeight =
     (if isNaN numericWeight
      then \<lparr>w_isValid = False, w_error = Some ''Please enter a valid number'', w_value = None\<rparr>
      else if decimalPlaces numericWeight > 1
      then \<lparr>w_isValid = False, w_error = Some ''Weight can have at most 1 decimal place'', w_value = None\<rparr>
      else \<lparr>w_isValid = True, w_error = None, w_value = Some numericWeight\<rparr>)"

section \<open>useDay: the per-field updates of the current attempt\<close>

datatype js_error = TypeError

text \<open>
  The frame every update shares: leave when there is no such day, read the current
  attempt (reading a field of an \<^verbatim>\<open>undefined\<close> attempt throws), build the updated
  attempt, put it in the day, hand the day to \<^verbatim>\<open>actions.updateDay\<close>, return the attempt
  (the progress figure returned beside it is for display and is left out). The result
  \<open>Inr None\<close> is the early \<^verbatim>\<open>return\<close>.
\<close>

definition updateCurrent ::
  "(Attempt \<Rightarrow> Attempt) \<Rightarrow> int \<Rightarrow> World \<Rightarrow> (js_error + Attempt option) \<times> World" where
  "updateCurrent f dayIndex w =
     (case at_index (st_days (app w)) dayIndex of
        None \<Rightarrow> (Inr None, w)
      | Some day \<Rightarrow>
          (case getCurrentAttempt day of
             None \<Rightarrow> (Inl TypeError, w)
           | Some currentAttempt \<Rightarrow>
               let updatedAttempt = f currentAttempt;
                   updatedDay = updateCurrentAttempt day updatedAttempt
               in (Inr (Some updatedAttempt), actions_updateDay (nat dayIndex) updatedDay w)))"

definition toggleTask_attempt :: "string \<Rightarrow> Attempt \<Rightarrow> Attempt" where
  "toggleTask_attempt taskId currentAttempt =
     (let updatedTasks = map (\<lambda>task. if task_id task = taskId
                                       then task\<lparr>task_completed := \<not> task_completed task\<rparr>
                                       else task) (tasks currentAttempt);
          updatedAttempt = currentAttempt\<lparr>tasks := updatedTasks\<rparr>;
          shouldBeCompleted = isAttemptComplete updatedAttempt
      in updatedAttempt\<lparr>completed := shouldBeCompleted,
                         timestamp := (if shouldBeCompleted then timestamp updatedAttempt else None)\<rparr>)"

definition toggleTask :: "string \<Rightarrow> int \<Rightarrow> World \<Rightarrow> (js_error + Attempt option) \<times> World" where
  "toggleTask taskId = updateCurrent (toggleTask_attempt taskId)"

definition setMood_attempt :: "string \<Rightarrow> Mood \<Rightarrow> Attempt \<Rightarrow> Attempt" where
  "setMood_attempt now m currentAttempt =
     (let keep = (completed currentAttempt \<and> isAttemptComplete (currentAttempt\<lparr>mood := Some m\<rparr>));
          updatedAttempt = currentAttempt\<lparr>mood := Some m,
             completed := (if keep then completed currentAttempt else False),
             timestamp := (if keep then timestamp currentAttempt else None)\<rparr>
      in if isAttemptComplete updatedAttempt \<and> \<not> completed updatedAttempt
         then updatedAttempt\<lparr>completed := True, timestamp := Some now\<rparr>
         else updatedAttempt)"

definition setMood :: "string \<Rightarrow> Mood \<Rightarrow> int \<Rightarrow> World \<Rightarrow> (js_error + Attempt option) \<times> World" where
  "setMood now m = updateCurrent (setMood_attempt now m)"

definition setWeight_attempt :: "string \<Rightarrow> jsnum \<Rightarrow> Attempt \<Rightarrow> Attempt" where
  "setWeight_attempt now x currentAttempt =
     (let keep = (completed currentAttempt \<and> isAttemptComplete (currentAttempt\<lparr>weight := Some x\<rparr>));
          updatedAttempt = currentAttempt\<lparr>weight := Some x,
             completed := (if keep then completed currentAttempt else False),
             timestamp := (if keep then timestamp currentAttempt else None)\<rparr>
      in if isAttemptComplete updatedAttempt \<and> \<not> completed updatedAttempt
         then updatedAttempt\<lparr>completed := True, timestamp := Some now\<rparr>
         else updatedAttempt)"

text \<open>\<^verbatim>\<open>setWeight\<close> answers \<^verbatim>\<open>false\<close> (here \<open>Inr None\<close>) when there is no day or the
  validation fails, before it reads the attempt.\<close>

definition setWeight :: "string \<Rightarrow> jsnum \<Rightarrow> int \<Rightarrow> World \<Rightarrow> (js_error + Attempt option) \<times> World" where
  "setWeight now x dayIndex w =
     (case at_index (st_days (app w)) dayIndex of
        None \<Rightarrow> (Inr None, w)
      | Some day \<Rightarrow>
          if \<not> w_isValid (validateWeight x) then (Inr None, w)
          else updateCurrent (setWeight_attempt now x) dayIndex w)"

definition setPhoto_attempt :: "string \<Rightarrow> string \<Rightarrow> Attempt \<Rightarrow> Attempt" where
  "setPhoto_attempt now uri currentAttempt =
     (let updatedAttempt = currentAttempt\<lparr>photoUri := Some uri\<rparr>
      in if isAttemptComplete updatedAttempt \<and> \<not> completed updatedAttempt
         then updatedAttempt\<lparr>completed := True, timestamp := Some now\<rparr>
         else updatedAttempt)"

definition setPhoto :: "string \<Rightarrow> string \<Rightarrow> int \<Rightarrow> World \<Rightarrow> (js_error + Attempt option) \<times> World" where
  "setPhoto now uri = updateCurrent (setPhoto_attempt now uri)"

definition clearMood_attempt :: "Attempt \<Rightarrow> Attempt" where
  "clearMood_attempt currentAttempt =
     (let keep = (completed currentAttempt \<and> isAttemptComplete (currentAttempt\<lparr>mood := None\<rparr>))
      in currentAttempt\<lparr>mood := None,
           completed := (if keep then completed currentAttempt else False),
           timestamp := (if keep then timestamp currentAttempt else None)\<rparr>)"

definition clearMood :: "int \<Rightarrow> World \<Rightarrow> (js_error + Attempt option) \<times> World" where
  "clearMood = updateCurrent clearMood_attempt"

definition clearWeight_attempt :: "Attempt \<Rightarrow> Attempt" where
  "clearWeight_attempt currentAttempt =
     (let keep = (completed currentAttempt \<and> isAttemptComplete (currentAttempt\<lparr>weight := None\<rparr>))
      in currentAttempt\<lparr>weight := None,
           completed := (if keep then completed currentAttempt else False),
           timestamp := (if keep then timestamp currentAttempt else None)\<rparr>)"

definition clearWeight :: "int \<Rightarrow> World \<Rightarrow> (js_error + Attempt option) \<times> World" where
  "clearWeight = updateCurrent clearWeight_attempt"

definition clearPhoto_attempt :: "Attempt \<Rightarrow> Attempt" where
  "clearPhoto_attempt currentAttempt =
     (let keep = (completed currentAttempt \<and> isAttemptComplete (currentAttempt\<lparr>photoUri := None\<rparr>))
      in currentAttempt\<lparr>photoUri := None,
           completed := (if keep then completed currentAttempt else False),
           timestamp := (if keep then timestamp currentAttempt else None)\<rparr>)"

definition clearPhoto :: "int \<Rightarrow> World \<Rightarrow> (js_error + Attempt option) \<times> World" where
  "clearPhoto = updateCurrent clearPhoto_attempt"

text \<open>The timestamp rule of the data model: a timestamp exactly on completed attempts.\<close>

definition stamped :: "Attempt \<Rightarrow> bool" where
  "stamped a = ((timestamp a \<noteq> None) = completed a)"

section \<open>DateService: the time gate\<close>

text \<open>
  A \<^verbatim>\<open>Date\<close> is its time value in milliseconds, \<open>None\<close> for an invalid date (whose
  time value is \<^verbatim>\<open>NaN\<close>; every number computed from it is \<^verbatim>\<open>NaN\<close>, again \<open>None\<close>,
  and every comparison with it is false). The runtime supplies the clock, the parser of
  date strings and \<^verbatim>\<open>setHours(0, 0, 0, 0)\<close>, the start of the local day of an instant.
  \<^verbatim>\<open>Math.floor\<close> of the quotient is integer division, which rounds down.
\<close>

record Runtime =
  clock :: int
  parseDate :: "string \<Rightarrow> int option"
  startOfDay :: "int \<Rightarrow> int"

definition MS_PER_DAY :: int where
  "MS_PER_DAY = 1000 * 60 * 60 * 24"

definition getMaxUnlockedDay :: "Runtime \<Rightarrow> int option \<Rightarrow> int option" where
  "getMaxUnlockedDay rt challengeStartDate =
     (case challengeStartDate of
        None \<Rightarrow> None
      | Some start \<Rightarrow>
          let startMidnight = startOfDay rt start;
              currentMidnight = startOfDay rt (clock rt);
              timeDifference = currentMidnight - startMidnight;
              daysDifference = timeDifference div MS_PER_DAY;
              maxUnlockedDay = max 1 (daysDifference + 1)
          in Some (min 75 maxUnlockedDay))"

definition isDayUnlockedByTime :: "Runtime \<Rightarrow> int \<Rightarrow> int option \<Rightarrow> bool" where
  "isDayUnlockedByTime rt dayIndex start =
     (case getMaxUnlockedDay rt start of None \<Rightarrow> False | Some maxUnlockedDay \<Rightarrow> dayIndex \<le> maxUnlockedDay)"

text \<open>A runtime whose local time is at a constant offset from UTC (in milliseconds,
  east positive): the local day of \<open>t\<close> starts \<open>(t + offset) mod MS_PER_DAY\<close> earlier.\<close>

definition fixedOffsetStartOfDay :: "int \<Rightarrow> int \<Rightarrow> int" where
  "fixedOffsetStartOfDay offset t = t - (t + offset) mod MS_PER_DAY"

section \<open>MainScreen: navigation and the bulk task revision\<close>

text \<open>\<^verbatim>\<open>handleDayPress\<close> for a pressed card at 0-based position \<open>dayIndex\<close>; the result
  is the list of actions it dispatches: \<open>[SET_CURRENT_DAY dayIndex]\<close> or nothing. A start
  date that is \<^verbatim>\<open>null\<close> or the empty string is falsy and ends the handler at once.\<close>

definition handleDayPress :: "Runtime \<Rightarrow> AppState \<Rightarrow> nat \<Rightarrow> AppAction list" where
  "handleDayPress rt state dayIndex =
     (case st_startDate state of
        None \<Rightarrow> []
      | Some start \<Rightarrow>
          if start = [] then []
          else
            let isUnlockedByTime = isDayUnlockedByTime rt (int dayIndex + 1) (parseDate rt start);
                allPreviousDaysCompleted = list_all isDayCompleted (take dayIndex (st_days state))
            in if \<not> isUnlockedByTime \<or> \<not> allPreviousDaysCompleted then []
               else [SET_CURRENT_DAY (int dayIndex)])"

text \<open>
  \<^verbatim>\<open>String.prototype.trim\<close>. A character of a string is a UTF-16 code unit below 256
  (the Latin-1 range), so \<open>CHR 0xA0\<close> is the no-break space U+00A0. In that range the white
  space and line terminators that \<^verbatim>\<open>trim\<close> strips are exactly these seven: U+0009 to
  U+000D, U+0020 and U+00A0 (U+0085 is not among them). The others (U+1680, U+2000 to
  U+200A, U+2028, U+2029, U+202F, U+205F, U+3000, U+FEFF) lie above the range: a title
  with a character outside Latin-1 is not a value of this type, and nothing is stated
  about it.
\<close>

definition is_space :: "char \<Rightarrow> bool" where
  "is_space c =
     (c \<in> set [CHR 0x09, CHR 0x0A, CHR 0x0B, CHR 0x0C, CHR 0x0D, CHR 0x20, CHR 0xA0])"

definition trim :: "string \<Rightarrow> string" where
  "trim s = rev (dropWhile is_space (rev (dropWhile is_space s)))"

text \<open>The body of the \<^verbatim>\<open>state.days.map((day, index) => ...)\<close> of \<^verbatim>\<open>saveTasks\<close>.\<close>

definition reviseDay :: "Task list \<Rightarrow> int \<Rightarrow> nat \<Rightarrow> Day \<Rightarrow> js_error + Day" where
  "reviseDay validTasks current i day =
     (let isCompletedDay = isDayCompleted day;
          isFutureDay = (int i > current)
      in if \<not> isCompletedDay \<or> isFutureDay then
           (case getCurrentAttempt day of
              None \<Rightarrow> Inl TypeError
            | Some currentAttempt \<Rightarrow>
                let updatedTasks = map (\<lambda>newTask.
                       let existingTask = find (\<lambda>t. task_id t = task_id newTask) (tasks currentAttempt)
                       in newTask\<lparr>task_completed :=
                            (case existingTask of Some t \<Rightarrow> task_completed t | None \<Rightarrow> False)\<rparr>)
                     validTasks;
                    updatedAttempt = currentAttempt\<lparr>tasks := updatedTasks\<rparr>
                in Inr (updateCurrentAttempt day updatedAttempt))
         else Inr day)"

fun reviseDays :: "Task list \<Rightarrow> int \<Rightarrow> nat \<Rightarrow> Day list \<Rightarrow> js_error + Day list" where
  "reviseDays validTasks current i [] = Inr []"
| "reviseDays validTasks current i (day # rest) =
     (case reviseDay validTasks current i day of
        Inl e \<Rightarrow> Inl e
      | Inr day' \<Rightarrow>
          (case reviseDays validTasks current (Suc i) rest of
             Inl e \<Rightarrow> Inl e
           | Inr rest' \<Rightarrow> Inr (day' # rest')))"

text \<open>The day that \<open>reviseDay\<close> returns whenever it returns (used to state what the
  revision computes).\<close>

definition revisedDay :: "Task list \<Rightarrow> int \<Rightarrow> nat \<Rightarrow> Day \<Rightarrow> Day" where
  "revisedDay validTasks current i day =
     (if \<not> isDayCompleted day \<or> current < int i
      then day\<lparr>attempts := butlast (attempts day) @
             [(last (attempts day))\<lparr>tasks := map (\<lambda>newTask. newTask\<lparr>task_completed :=
                 (case find (\<lambda>t. task_id t = task_id newTask) (tasks (last (attempts day))) of
                    Some t \<Rightarrow> task_completed t | None \<Rightarrow> False)\<rparr>) validTasks\<rparr>]\<rparr>
      else day)"

datatype save_outcome = AlertNoTasks | AlertSaveFailed | TasksModified

definition saveTasks :: "Task list \<Rightarrow> World \<Rightarrow> save_outcome \<times> World" where
  "saveTasks editableTasks w =
     (let validTasks = filter (\<lambda>task. trim (title task) \<noteq> []) editableTasks
      in if length validTasks = 0 then (AlertNoTasks, w)
         else (case reviseDays validTasks (st_currentDayIndex (app w)) 0 (st_days (app w)) of
                 Inl e \<Rightarrow> (AlertSaveFailed, w)
               | Inr updatedDays \<Rightarrow> (TasksModified, actions_updateDays updatedDays w)))"

section \<open>DataService: import of a backup\<close>

datatype json =
    JNull
  | JBool bool
  | JNum jsnum
  | JStr string
  | JArr "json list"
  | JObj "(string \<times> json) list"

text \<open>Property read \<^verbatim>\<open>value.key\<close> for the keys the validation reads: the member of an
  object (the last one, when a key is repeated in the text), \<^verbatim>\<open>undefined\<close> (\<open>None\<close>)
  on everything else.\<close>

fun getProp :: "json \<Rightarrow> string \<Rightarrow> json option" where
  "getProp (JObj members) k = map_of (rev members) k"
| "getProp _ k = None"

fun truthy :: "json option \<Rightarrow> bool" where
  "truthy None = False"
| "truthy (Some JNull) = False"
| "truthy (Some (JBool b)) = b"
| "truthy (Some (JNum NaN)) = False"
| "truthy (Some (JNum (Infinity neg))) = True"
| "truthy (Some (JNum (Finite neg s e))) = (s \<noteq> 0)"
| "truthy (Some (JStr s)) = (s \<noteq> [])"
| "truthy (Some (JArr xs)) = True"
| "truthy (Some (JObj ms)) = True"

fun is_number :: "json option \<Rightarrow> bool" where
  "is_number (Some (JNum x)) = True"
| "is_number _ = False"

fun is_string :: "json option \<Rightarrow> bool" where
  "is_string (Some (JStr x)) = True"
| "is_string _ = False"

fun isArray :: "json option \<Rightarrow> bool" where
  "isArray (Some (JArr xs)) = True"
| "isArray _ = False"

fun array_length :: "json option \<Rightarrow> nat" where
  "array_length (Some (JArr xs)) = length xs"
| "array_length _ = 0"

record ImportValidation =
  isValid :: bool
  message :: string

definition validateImportData :: "json \<Rightarrow> ImportValidation" where
  "validateImportData data =
     (if \<not> truthy (Some data)
      then \<lparr>isValid = False, message = ''File is empty or corrupted.''\<rparr>
      else if \<not> is_number (getProp data ''version'')
      then \<lparr>isValid = False, message = ''Invalid file format: missing version.''\<rparr>
      else if \<not> truthy (getProp data ''exportDate'') \<or> \<not> is_string (getProp data ''exportDate'')
      then \<lparr>isValid = False, message = ''Invalid file format: missing export date.''\<rparr>
      else if \<not> truthy (getProp data ''challengeData'')
      then \<lparr>isValid = False, message = ''Invalid file format: missing challenge data.''\<rparr>
      else (let challengeData = the (getProp data ''challengeData'')
            in if \<not> is_number (getProp challengeData ''version'')
                  \<or> \<not> truthy (getProp challengeData ''startDate'')
                  \<or> \<not> isArray (getProp challengeData ''days'')
                  \<or> \<not> is_number (getProp challengeData ''currentDayIndex'')
               then \<lparr>isValid = False, message = ''Invalid file format: corrupted challenge data.''\<rparr>
               else if array_length (getProp challengeData ''days'') \<noteq> 75
               then \<lparr>isValid = False, message = ''Invalid file format: incorrect number of days.''\<rparr>
               else \<lparr>isValid = True, message = ''Valid import data.''\<rparr>))"

text \<open>What reading and parsing the chosen file gave, and what the user answered to the
  confirmation dialog.\<close>

datatype file_outcome = ReadFailed string | ParseFailed | Parsed json

datatype user_choice = Cancel | Import

record ImportResult =
  success :: bool
  result_message :: string

definition importData ::
  "file_outcome \<Rightarrow> user_choice \<Rightarrow> json AsyncStorage \<Rightarrow> ImportResult \<times> json AsyncStorage" where
  "importData file choice s =
     (case file of
        ReadFailed m \<Rightarrow> (\<lparr>success = False, result_message = ''Import failed: '' @ m\<rparr>, s)
      | ParseFailed \<Rightarrow>
          (\<lparr>success = False,
            result_message = ''Invalid file format. Please select a valid 75 Hard backup file.''\<rparr>, s)
      | Parsed importData \<Rightarrow>
          let validationResult = validateImportData importData
          in if \<not> isValid validationResult
             then (\<lparr>success = False, result_message = message validationResult\<rparr>, s)
             else (case choice of
                     Cancel \<Rightarrow> (\<lparr>success = False, result_message = ''Import cancelled by user.''\<rparr>, s)
                   | Import \<Rightarrow>
                       (\<lparr>success = True,
                         result_message = ''Data imported successfully! The app will refresh with your imported data.''\<rparr>,
                        saveChallengeData (the (getProp importData ''challengeData'')) (clearChallengeData s))))"

section \<open>Example data\<close>

text \<open>A small challenge in the shape of the worked example of the bulk revision: a
  completed day before the current one, the current day (position 1) with its one task
  done but the attempt open, and a fresh day after it. The stored copy agrees with the
  state in memory.\<close>

definition example_days :: "Day list" where
  "example_days =
     [\<lparr>index = 3, date = ''2024-01-03'',
       attempts = [\<lparr>number = 1, timestamp = Some ''2024-01-03T19:00:00.000Z'',
                    photoUri = Some ''file:///photo3.jpg'', mood = Some happy,
                    weight = Some (Finite False 80 0),
                    tasks = [createTask ''a'' ''A'' True], completed = True\<rparr>]\<rparr>,
      \<lparr>index = 5, date = ''2024-01-05'',
       attempts = [\<lparr>number = 1, timestamp = None, photoUri = None, mood = None, weight = None,
                    tasks = [createTask ''a'' ''A'' True], completed = False\<rparr>]\<rparr>,
      \<lparr>index = 10, date = ''2024-01-10'',
       attempts = [createAttempt 1 [createTask ''a'' ''A'' False]]\<rparr>]"

definition example_world :: World where
  "example_world =
     \<lparr>app = \<lparr>st_days = example_days, st_currentDayIndex = 1,
             st_startDate = Some ''2024-01-01T00:00'', isLoading = False, st_error = None\<rparr>,
      disk = \<lparr>items = [CHALLENGE_DATA \<mapsto>
                        \<lparr>version = 1, startDate = ''2024-01-01T00:00'', days = example_days,
                         currentDayIndex = 2\<rparr>],
              oplog = []\<rparr>\<rparr>"

text \<open>The edited template: task \<open>a\<close> renamed, task \<open>b\<close> new, and a row left blank.\<close>

definition example_template :: "Task list" where
  "example_template =
     [createTask ''a'' ''A2'' False, createTask ''b'' ''B'' False, createTask ''task-1'' ''  '' False]"

text \<open>An attempt with everything but its one task done, and a backup whose challenge has
  74 days.\<close>

definition example_open_attempt :: Attempt where
  "example_open_attempt =
     \<lparr>number = 1, timestamp = None, photoUri = Some ''file:///photo1.jpg'', mood = Some happy,
      weight = Some (Finite False 80 0),
      tasks = [createTask ''workout'' ''45 min workout'' False], completed = False\<rparr>"

definition example_backup :: "nat \<Rightarrow> json" where
  "example_backup n =
     JObj [(''version'', JNum (Finite False 1 0)),
           (''exportDate'', JStr ''2024-02-01T10:00:00.000Z''),
           (''appVersion'', JStr ''1.0.0''),
           (''challengeData'',
              JObj [(''version'', JNum (Finite False 1 0)),
                    (''startDate'', JStr ''2024-01-01T00:00:00.000Z''),
                    (''days'', JArr (replicate n JNull)),
                    (''currentDayIndex'', JNum (Finite False 1 0))])]"

definition example_open_world :: World where
  "example_open_world =
     \<lparr>app = \<lparr>st_days = [\<lparr>index = 1, date = ''2024-01-01'', attempts = [example_open_attempt]\<rparr>],
             st_currentDayIndex = 0, st_startDate = Some ''2024-01-01T00:00'', isLoading = False,
             st_error = None\<rparr>,
      disk = \<lparr>items = [CHALLENGE_DATA \<mapsto>
                        \<lparr>version = 1, startDate = ''2024-01-01T00:00'',
                         days = [\<lparr>index = 1, date = ''2024-01-01'', attempts = [example_open_attempt]\<rparr>],
                         currentDayIndex = 1\<rparr>],
              oplog = []\<rparr>\<rparr>"

section \<open>Completion of an attempt\<close>

text \<open>
  C1. \<^verbatim>\<open>isAttemptComplete\<close> holds exactly when all four requirement categories hold:
  every task of the attempt is completed (which is true of an empty task list), the mood
  is set, the photo URI is set and is not the empty string, and the weight is set and
  greater than zero.
\<close>

theorem isAttemptComplete_iff:
  "isAttemptComplete attempt \<longleftrightarrow>
     (\<forall>t \<in> set (tasks attempt). task_completed t)
     \<and> (\<exists>m. mood attempt = Some m)
     \<and> (\<exists>u. photoUri attempt = Some u \<and> u \<noteq> [])
     \<and> (\<exists>x. weight attempt = Some x \<and> gt_zero x)"
  by (cases "weight attempt"; cases "photoUri attempt")
     (auto simp: isAttemptComplete_def list_all_iff)

theorem isAttemptComplete_iff_witness:
  "isAttemptComplete
     \<lparr>number = 1, timestamp = None, photoUri = Some ''file:///day1.jpg'', mood = Some calm,
      weight = Some (Finite False 705 (-1)),
      tasks = [\<lparr>task_id = ''workout'', title = ''45 min workout'', task_completed = True\<rparr>],
      completed = False\<rparr>
   \<and> \<not> isAttemptComplete
     \<lparr>number = 1, timestamp = None, photoUri = Some ''file:///day1.jpg'', mood = Some calm,
      weight = Some (Finite False 0 0),
      tasks = [], completed = False\<rparr>"
  using isAttemptComplete_iff
          [of "\<lparr>number = 1, timestamp = None, photoUri = Some ''file:///day1.jpg'', mood = Some calm,
               weight = Some (Finite False 705 (-1)),
               tasks = [\<lparr>task_id = ''workout'', title = ''45 min workout'', task_completed = True\<rparr>],
               completed = False\<rparr>"]
        isAttemptComplete_iff
          [of "\<lparr>number = 1, timestamp = None, photoUri = Some ''file:///day1.jpg'', mood = Some calm,
               weight = Some (Finite False 0 0), tasks = [], completed = False\<rparr>"]
  by simp

section \<open>The current attempt of a day\<close>

lemma at_index_last: "at_index xs (int (length xs) - 1) = (if xs = [] then None else Some (last xs))"
  by (cases "xs = []") (simp_all add: at_index_def last_conv_nth nat_diff_distrib')

lemma getCurrentAttempt_conv:
  "getCurrentAttempt day = (if attempts day = [] then None else Some (last (attempts day)))"
  by (simp add: getCurrentAttempt_def at_index_last)

text \<open>
  C7, as the code has it. \<^verbatim>\<open>getCurrentAttempt\<close> returns the last element of the attempts
  of a day, and on a day without attempts it returns \<^verbatim>\<open>undefined\<close>: it has no failure.
\<close>

theorem getCurrentAttempt_last_or_undefined:
  "getCurrentAttempt day = (if attempts day = [] then None else Some (last (attempts day)))"
  by (simp add: getCurrentAttempt_def at_index_last)

theorem getCurrentAttempt_last_or_undefined_witness:
  "getCurrentAttempt
     \<lparr>index = 2, date = ''2024-01-02'',
      attempts = [createAttempt 1 createDefaultTasks, createAttempt 2 []]\<rparr>
   = Some (createAttempt 2 [])"
  using getCurrentAttempt_last_or_undefined
          [of "\<lparr>index = 2, date = ''2024-01-02'',
                attempts = [createAttempt 1 createDefaultTasks, createAttempt 2 []]\<rparr>"]
  by simp

text \<open>
  C7, as the claim has it, fails on a day whose attempts are empty: the call returns
  (the value \<^verbatim>\<open>undefined\<close>) where the claim wants an \<^verbatim>\<open>InvariantViolation\<close> failure.
\<close>

theorem getCurrentAttempt_empty_returns_undefined:
  "getCurrentAttempt \<lparr>index = 1, date = ''2024-01-01'', attempts = []\<rparr> = None"
  by (simp add: getCurrentAttempt_def at_index_def)

section \<open>Adding attempts\<close>

lemma isDayCompleted_addNewAttempt: "isDayCompleted day \<Longrightarrow> isDayCompleted (addNewAttempt day)"
  by (simp add: isDayCompleted_def addNewAttempt_def list_ex_iff)

text \<open>
  C8. A completed day stays completed under any number of further \<^verbatim>\<open>addNewAttempt\<close>
  applications.
\<close>

theorem isDayCompleted_monotonic:
  "isDayCompleted day \<Longrightarrow> isDayCompleted ((addNewAttempt ^^ n) day)"
  by (induction n) (simp_all add: isDayCompleted_addNewAttempt)

theorem isDayCompleted_monotonic_witness:
  "isDayCompleted \<lparr>index = 1, date = ''2024-01-01'',
                   attempts = [completeAttempt ''2024-01-01T20:00:00.000Z'' (createAttempt 1 [])]\<rparr>
   \<and> isDayCompleted ((addNewAttempt ^^ 3)
        \<lparr>index = 1, date = ''2024-01-01'',
         attempts = [completeAttempt ''2024-01-01T20:00:00.000Z'' (createAttempt 1 [])]\<rparr>)
   \<and> length (attempts ((addNewAttempt ^^ 3)
        \<lparr>index = 1, date = ''2024-01-01'',
         attempts = [completeAttempt ''2024-01-01T20:00:00.000Z'' (createAttempt 1 [])]\<rparr>)) = 4"
proof -
  let ?d = "\<lparr>index = 1, date = ''2024-01-01'',
             attempts = [completeAttempt ''2024-01-01T20:00:00.000Z'' (createAttempt 1 [])]\<rparr>"
  have h: "isDayCompleted ?d"
    by (simp add: isDayCompleted_def completeAttempt_def createAttempt_def)
  have l: "length (attempts ((addNewAttempt ^^ 3) ?d)) = 4"
    by (simp add: numeral_3_eq_3 addNewAttempt_def)
  show ?thesis
    using h l isDayCompleted_monotonic [OF h, of 3] by simp
qed

text \<open>
  C5, as the code has it. \<^verbatim>\<open>addNewAttempt\<close> keeps index and date and appends one attempt
  to the attempts of the day; the new attempt has the number \<open>length + 1\<close>, no timestamp,
  photo, mood or weight, is not completed, and its tasks are the four built-in default
  tasks, none completed, whatever the tasks of the earlier attempts are.
\<close>

theorem addNewAttempt_appends_default_attempt:
  "addNewAttempt day =
     \<lparr>index = index day, date = date day,
      attempts = attempts day @
        [\<lparr>number = length (attempts day) + 1, timestamp = None, photoUri = None, mood = None,
          weight = None,
          tasks = [\<lparr>task_id = ''workout'', title = ''45 min workout'', task_completed = False\<rparr>,
                   \<lparr>task_id = ''rawdogging'', title = ''10 min rawdogging'', task_completed = False\<rparr>,
                   \<lparr>task_id = ''reading'', title = ''Read 10 pages'', task_completed = False\<rparr>,
                   \<lparr>task_id = ''water'', title = ''Drink 2L water'', task_completed = False\<rparr>],
          completed = False\<rparr>]\<rparr>"
  by (simp add: addNewAttempt_def createAttempt_def createDefaultTasks_def DEFAULT_TASKS_def
                createTask_def)

theorem addNewAttempt_appends_default_attempt_witness:
  "map number (attempts (addNewAttempt (example_days ! 1))) = [1, 2]
   \<and> map task_id (tasks (last (attempts (addNewAttempt (example_days ! 1)))))
       = [''workout'', ''rawdogging'', ''reading'', ''water'']"
  using addNewAttempt_appends_default_attempt [of "example_days ! 1"]
  by (simp add: example_days_def)

section \<open>The storage key\<close>

text \<open>
  C9, as the code has it. Every save of the challenge writes the value under the key
  \<open>75hard_state_v1\<close>, and that write is the only effect on the store; every load reads the
  value from that key (and brings its version to the current one).
\<close>

theorem challenge_stored_under_75hard_state_v1:
  "saveChallengeData challengeData s =
     s\<lparr>items := (items s)(''75hard_state_v1'' \<mapsto> challengeData),
       oplog := oplog s @ [SetItem ''75hard_state_v1'']\<rparr>
   \<and> fst (loadChallengeData t) =
       map_option (\<lambda>c. c\<lparr>version := CURRENT_VERSION\<rparr>) (items t ''75hard_state_v1'')"
  by (cases "items t ''75hard_state_v1''")
     (simp_all add: saveChallengeData_def setItem_def loadChallengeData_def getItem_def
                    CHALLENGE_DATA_def migrateData_def Let_def)

text \<open>
  C9, as the claim has it, fails: after a save into an empty store nothing is stored under
  the key \<open>challenge_data_v1\<close>.
\<close>

theorem nothing_stored_under_challenge_data_v1:
  "items (saveChallengeData
            \<lparr>version = 1, startDate = ''2024-01-01T00:00:00.000Z'', days = [], currentDayIndex = 1\<rparr>
            \<lparr>items = Map.empty, oplog = []\<rparr>) ''challenge_data_v1'' = None
   \<and> items (saveChallengeData
            \<lparr>version = 1, startDate = ''2024-01-01T00:00:00.000Z'', days = [], currentDayIndex = 1\<rparr>
            \<lparr>items = Map.empty, oplog = []\<rparr>) ''75hard_state_v1''
     = Some \<lparr>version = 1, startDate = ''2024-01-01T00:00:00.000Z'', days = [], currentDayIndex = 1\<rparr>"
  by (simp add: saveChallengeData_def setItem_def CHALLENGE_DATA_def)

lemma loadChallengeData_cases:
  "loadChallengeData s =
     (case items s CHALLENGE_DATA of
        None \<Rightarrow> (None, s)
      | Some cd \<Rightarrow>
          (Some (cd\<lparr>version := CURRENT_VERSION\<rparr>),
           if version cd \<noteq> CURRENT_VERSION
           then s\<lparr>items := (items s)(CHALLENGE_DATA \<mapsto> cd\<lparr>version := CURRENT_VERSION\<rparr>),
                  oplog := oplog s @ [SetItem CHALLENGE_DATA]\<rparr>
           else s))"
  by (cases "items s CHALLENGE_DATA")
     (simp_all add: loadChallengeData_def getItem_def migrateData_def saveChallengeData_def
                    setItem_def Let_def)

section \<open>The timestamp rule under the per-field updates\<close>

lemma isAttemptComplete_ignores_marks [simp]:
  "isAttemptComplete (a\<lparr>completed := c\<rparr>) = isAttemptComplete a"
  "isAttemptComplete (a\<lparr>timestamp := t\<rparr>) = isAttemptComplete a"
  by (simp_all add: isAttemptComplete_def)

lemma stamped_setMood: "stamped a \<Longrightarrow> stamped (setMood_attempt now m a)"
  by (auto simp: stamped_def setMood_attempt_def Let_def)

lemma stamped_setWeight: "stamped a \<Longrightarrow> stamped (setWeight_attempt now x a)"
  by (auto simp: stamped_def setWeight_attempt_def Let_def)

lemma stamped_setPhoto: "stamped a \<Longrightarrow> stamped (setPhoto_attempt now u a)"
  by (auto simp: stamped_def setPhoto_attempt_def Let_def)

lemma stamped_clearMood: "stamped a \<Longrightarrow> stamped (clearMood_attempt a)"
  by (auto simp: stamped_def clearMood_attempt_def Let_def)

lemma stamped_clearWeight: "stamped a \<Longrightarrow> stamped (clearWeight_attempt a)"
  by (auto simp: stamped_def clearWeight_attempt_def Let_def)

lemma stamped_clearPhoto: "stamped a \<Longrightarrow> stamped (clearPhoto_attempt a)"
  by (auto simp: stamped_def clearPhoto_attempt_def Let_def)

lemma setMood_promotes:
  "\<not> completed a \<Longrightarrow> isAttemptComplete (a\<lparr>mood := Some m\<rparr>) \<Longrightarrow>
   completed (setMood_attempt now m a) \<and> timestamp (setMood_attempt now m a) = Some now"
  by (simp add: setMood_attempt_def Let_def)

lemma setWeight_promotes:
  "\<not> completed a \<Longrightarrow> isAttemptComplete (a\<lparr>weight := Some x\<rparr>) \<Longrightarrow>
   completed (setWeight_attempt now x a) \<and> timestamp (setWeight_attempt now x a) = Some now"
  by (simp add: setWeight_attempt_def Let_def)

lemma setPhoto_promotes:
  "\<not> completed a \<Longrightarrow> isAttemptComplete (a\<lparr>photoUri := Some u\<rparr>) \<Longrightarrow>
   completed (setPhoto_attempt now u a) \<and> timestamp (setPhoto_attempt now u a) = Some now"
  by (simp add: setPhoto_attempt_def Let_def)

lemma toggleTask_promotes_unstamped:
  assumes "\<not> completed a" and "stamped a"
    and "isAttemptComplete (a\<lparr>tasks := map (\<lambda>task. if task_id task = taskId
                                   then task\<lparr>task_completed := \<not> task_completed task\<rparr>
                                   else task) (tasks a)\<rparr>)"
  shows "completed (toggleTask_attempt taskId a) \<and> timestamp (toggleTask_attempt taskId a) = None"
  using assms by (simp add: toggleTask_attempt_def stamped_def Let_def)

lemma stamped_toggleTask_iff:
  assumes "stamped a"
  shows "stamped (toggleTask_attempt taskId a) \<longleftrightarrow>
           \<not> (\<not> completed a \<and> isAttemptComplete (toggleTask_attempt taskId a))"
  using assms by (auto simp: toggleTask_attempt_def stamped_def Let_def)

text \<open>
  C2, at an input where the code departs from it. The attempt has its mood, photo and
  weight but not its one task, is not completed and has no timestamp. Toggling the task
  makes it complete: \<^verbatim>\<open>toggleTask\<close> marks it completed and keeps the timestamp it had,
  which is none, in the returned attempt, in the state and in the store. The same
  promotion through \<^verbatim>\<open>setMood\<close> stamps the attempt with the current time.
\<close>

theorem toggleTask_completes_without_timestamp:
  "stamped example_open_attempt
   \<and> \<not> completed example_open_attempt
   \<and> isAttemptComplete (toggleTask_attempt ''workout'' example_open_attempt)
   \<and> completed (toggleTask_attempt ''workout'' example_open_attempt)
   \<and> timestamp (toggleTask_attempt ''workout'' example_open_attempt) = None
   \<and> fst (toggleTask ''workout'' 0 example_open_world)
       = Inr (Some (toggleTask_attempt ''workout'' example_open_attempt))
   \<and> map (\<lambda>day. map (\<lambda>a. (completed a, timestamp a)) (attempts day))
         (st_days (app (snd (toggleTask ''workout'' 0 example_open_world)))) = [[(True, None)]]
   \<and> map_option (\<lambda>c. map (\<lambda>day. map (\<lambda>a. (completed a, timestamp a)) (attempts day)) (days c))
         (items (disk (snd (toggleTask ''workout'' 0 example_open_world))) CHALLENGE_DATA)
       = Some [[(True, None)]]
   \<and> timestamp (setMood_attempt ''2024-01-01T21:00:00.000Z'' happy
        (example_open_attempt\<lparr>mood := None, tasks := [createTask ''workout'' ''45 min workout'' True]\<rparr>))
       = Some ''2024-01-01T21:00:00.000Z''"
  by (simp add: example_open_attempt_def example_open_world_def stamped_def toggleTask_attempt_def
       toggleTask_def updateCurrent_def at_index_def getCurrentAttempt_conv updateCurrentAttempt_def
       actions_updateDay_def loadChallengeData_cases updateDay_def saveChallengeData_def setItem_def
       isAttemptComplete_def createTask_def setMood_attempt_def CURRENT_VERSION_def Let_def)

section \<open>Weight validation\<close>

lemma digit_char_not_dot: "d < 10 \<Longrightarrow> digit_char d \<noteq> CHR ''.''"
proof -
  assume "d < 10"
  then have "d \<in> {0, 1, 2, 3, 4, 5, 6, 7, 8, 9}" by auto
  then show ?thesis by (auto simp: digit_char_def)
qed

lemma digits_no_dot: "CHR ''.'' \<notin> set (digits n)"
proof (induction n rule: digits.induct)
  case (1 n)
  show ?case
  proof (cases "n < 10")
    case True
    then show ?thesis
      using digit_char_not_dot [of n] by (subst digits.simps) auto
  next
    case False
    then have "CHR ''.'' \<notin> set (digits (n div 10))" by (rule "1.IH")
    moreover have "digit_char (n mod 10) \<noteq> CHR ''.''" by (rule digit_char_not_dot) simp
    ultimately show ?thesis
      using False by (subst digits.simps) auto
  qed
qed

lemma digits_nonempty: "digits n \<noteq> []"
  by (subst digits.simps) simp

lemma split_dot_none: "CHR ''.'' \<notin> set xs \<Longrightarrow> split_dot xs = [xs]"
  by (induction xs) auto

lemma split_dot_at: "CHR ''.'' \<notin> set xs \<Longrightarrow> split_dot (xs @ CHR ''.'' # ys) = xs # split_dot ys"
  by (induction xs) auto

lemma strip_zeros_canonical: "s mod 10 \<noteq> 0 \<Longrightarrow> strip_zeros s e = (s, e)"
  by (subst strip_zeros.simps) simp

lemma decimalPlaces_plain:
  assumes canonical: "s mod 10 \<noteq> 0"
    and plain: "-6 < e + int (length (digits s))" "e + int (length (digits s)) \<le> 21"
  shows "decimalPlaces (Finite neg s e) = nat (- e)"
proof -
  let ?ds = "digits s"
  let ?k = "int (length ?ds)"
  let ?n = "e + ?k"
  let ?sign = "if neg then ''-'' else ''''"
  from canonical have s0: "s \<noteq> 0" by auto
  have str: "toString (Finite neg s e) = ?sign @ positive_toString ?ds ?n"
    using s0 by (simp add: strip_zeros_canonical [OF canonical] Let_def)
  have nd: "CHR ''.'' \<notin> set ?ds" by (rule digits_no_dot)
  have k1: "1 \<le> ?k" using digits_nonempty [of s] by (cases ?ds) simp_all
  have sign: "CHR ''.'' \<notin> set ?sign" by simp
  consider (whole) "?k \<le> ?n" | (inner) "0 < ?n" "?n < ?k" | (small) "?n \<le> 0"
    by linarith
  then show ?thesis
  proof cases
    case whole
    let ?all = "?sign @ ?ds @ replicate (nat (?n - ?k)) CHR ''0''"
    have "positive_toString ?ds ?n = ?ds @ replicate (nat (?n - ?k)) CHR ''0''"
      using whole plain by (simp add: positive_toString_def Let_def)
    then have ts: "toString (Finite neg s e) = ?all"
      unfolding str by simp
    have "CHR ''.'' \<notin> set ?all"
      using nd by auto
    then have "split_dot ?all = [?all]"
      by (rule split_dot_none)
    then have "decimalPlaces (Finite neg s e) = 0"
      unfolding decimalPlaces_def ts by simp
    with whole show ?thesis by simp
  next
    case inner
    let ?before = "?sign @ take (nat ?n) ?ds"
    let ?after = "drop (nat ?n) ?ds"
    have "positive_toString ?ds ?n = take (nat ?n) ?ds @ CHR ''.'' # ?after"
      using inner plain by (simp add: positive_toString_def Let_def)
    then have ts: "toString (Finite neg s e) = ?before @ CHR ''.'' # ?after"
      unfolding str by simp
    have "CHR ''.'' \<notin> set ?before"
      using nd by (auto dest: in_set_takeD)
    then have 1: "split_dot (?before @ CHR ''.'' # ?after) = ?before # split_dot ?after"
      by (rule split_dot_at)
    have "CHR ''.'' \<notin> set ?after"
      using nd by (auto dest: in_set_dropD)
    then have 2: "split_dot ?after = [?after]"
      by (rule split_dot_none)
    have "decimalPlaces (Finite neg s e) = length ?after"
      unfolding decimalPlaces_def ts 1 2 by simp
    with inner show ?thesis by simp
  next
    case small
    let ?before = "?sign @ ''0''"
    let ?after = "replicate (nat (- ?n)) CHR ''0'' @ ?ds"
    have "positive_toString ?ds ?n = ''0.'' @ ?after"
      using small plain k1 by (simp add: positive_toString_def Let_def)
    then have ts: "toString (Finite neg s e) = ?before @ CHR ''.'' # ?after"
      unfolding str by simp
    have "CHR ''.'' \<notin> set ?before"
      by simp
    then have 1: "split_dot (?before @ CHR ''.'' # ?after) = ?before # split_dot ?after"
      by (rule split_dot_at)
    have "CHR ''.'' \<notin> set ?after"
      using nd by auto
    then have 2: "split_dot ?after = [?after]"
      by (rule split_dot_none)
    have "decimalPlaces (Finite neg s e) = length ?after"
      unfolding decimalPlaces_def ts 1 2 by simp
    with small show ?thesis by simp
  qed
qed

lemma validateWeight_plain:
  assumes "s mod 10 \<noteq> 0"
    and "-6 < e + int (length (digits s))" "e + int (length (digits s)) \<le> 21"
  shows "w_isValid (validateWeight (Finite neg s e)) \<longleftrightarrow> -1 \<le> e"
  using decimalPlaces_plain [OF assms, of neg] by (auto simp: validateWeight_def)

lemma validateWeight_zero: "w_isValid (validateWeight (Finite neg 0 e))"
  by (simp add: validateWeight_def decimalPlaces_def)

lemma validateWeight_NaN: "\<not> w_isValid (validateWeight NaN)"
  by (simp add: validateWeight_def)

lemma setWeight_rejected_unchanged:
  "\<not> w_isValid (validateWeight x) \<Longrightarrow> setWeight now x dayIndex w = (Inr None, w)"
  by (simp add: setWeight_def split: option.split)

lemma nonpositive_weight_never_completes:
  "\<not> gt_zero x \<Longrightarrow> \<not> isAttemptComplete (a\<lparr>weight := Some x\<rparr>)"
  by (simp add: isAttemptComplete_def)

lemma digits_small: "n < 10 \<Longrightarrow> digits n = [digit_char n]"
  by (subst digits.simps) simp

lemma digits_step: "\<not> n < 10 \<Longrightarrow> digits n = digits (n div 10) @ [digit_char (n mod 10)]"
  by (subst digits.simps) simp

lemmas number_printing =
  strip_zeros_canonical digits_small digits_step digit_char_def positive_toString_def
  exponent_part_def Let_def

lemma toString_examples: "toString (Finite False 1 (-7)) = ''1e-7''"
    "toString (Finite False 15 20) = ''1.5e+21''"
    "toString (Finite False 705 (-1)) = ''70.5''"
    "toString (Finite True 5 0) = ''-5''"
    "toString (Finite False 7055 (-2)) = ''70.55''"
    by (simp_all add: number_printing)

lemma decimalPlaces_examples: "decimalPlaces (Finite False 1 (-7)) = 0"
    "decimalPlaces (Finite False 15 20) = 5"
    "decimalPlaces (Finite False 705 (-1)) = 1"
    "decimalPlaces (Finite True 5 0) = 0"
    "decimalPlaces (Finite False 7055 (-2)) = 2"
  unfolding decimalPlaces_def toString_examples by simp_all

lemma validateWeight_examples: "w_isValid (validateWeight (Finite False 1 (-7)))"
    "w_isValid (validateWeight (Finite False 15 20)) = False"
    "w_isValid (validateWeight (Finite False 705 (-1)))"
    "w_isValid (validateWeight (Finite True 5 0))"
    "w_isValid (validateWeight (Finite False 7055 (-2))) = False"
   unfolding validateWeight_def decimalPlaces_examples by simp_all

text \<open>
  C10, at inputs where the code departs from it. The number \<open>1e-7\<close> has seven decimal
  places, but it prints as \<open>1e-7\<close>, without a dot: the validation accepts it and
  \<^verbatim>\<open>setWeight\<close> stores it. The number \<open>1.5e21\<close> is whole, but it prints as \<open>1.5e+21\<close>:
  the validation counts the five characters after the dot and rejects it. A weight printed
  in plain notation is treated as the claim says (\<open>70.5\<close> and \<open>-5\<close> pass, \<open>70.55\<close>
  does not).
\<close>

theorem validateWeight_exponent_notation:
  "toString (Finite False 1 (-7)) = ''1e-7''
   \<and> w_isValid (validateWeight (Finite False 1 (-7)))
   \<and> (case fst (setWeight ''2024-01-01T21:00:00.000Z'' (Finite False 1 (-7)) 0 example_open_world) of
        Inr (Some a) \<Rightarrow> weight a = Some (Finite False 1 (-7)) | _ \<Rightarrow> False)
   \<and> toString (Finite False 15 20) = ''1.5e+21''
   \<and> w_isValid (validateWeight (Finite False 15 20)) = False
   \<and> toString (Finite False 705 (-1)) = ''70.5''
   \<and> w_isValid (validateWeight (Finite False 705 (-1)))
   \<and> toString (Finite True 5 0) = ''-5''
   \<and> w_isValid (validateWeight (Finite True 5 0))
   \<and> toString (Finite False 7055 (-2)) = ''70.55''
   \<and> w_isValid (validateWeight (Finite False 7055 (-2))) = False"
proof -
  have s: "case fst (setWeight ''2024-01-01T21:00:00.000Z'' (Finite False 1 (-7)) 0 example_open_world) of
        Inr (Some a) \<Rightarrow> weight a = Some (Finite False 1 (-7)) | _ \<Rightarrow> False"
    unfolding setWeight_def
    by (simp only: validateWeight_examples if_False if_True not_True_eq_False not_not)
       (simp add: updateCurrent_def at_index_def example_open_world_def
          getCurrentAttempt_conv setWeight_attempt_def Let_def)
  show ?thesis
    by (intro conjI toString_examples validateWeight_examples s)
qed

section \<open>The bulk task revision\<close>

lemma reviseDay_total:
  "attempts day \<noteq> [] \<Longrightarrow> reviseDay vt cur i day = Inr (revisedDay vt cur i day)"
  by (simp add: reviseDay_def revisedDay_def getCurrentAttempt_conv updateCurrentAttempt_def Let_def)

lemma reviseDay_fails:
  "attempts day = [] \<Longrightarrow> reviseDay vt cur i day = Inl TypeError"
  by (simp add: reviseDay_def getCurrentAttempt_conv isDayCompleted_def)

lemma reviseDays_total:
  "\<forall>day \<in> set ds. attempts day \<noteq> [] \<Longrightarrow>
   reviseDays vt cur i ds = Inr (map (\<lambda>(j, day). revisedDay vt cur j day) (enumerate i ds))"
  by (induction ds arbitrary: i) (simp_all add: reviseDay_total)

lemma reviseDays_fails:
  "\<exists>day \<in> set ds. attempts day = [] \<Longrightarrow> \<exists>e. reviseDays vt cur i ds = Inl e"
proof (induction ds arbitrary: i)
  case Nil
  then show ?case by simp
next
  case (Cons d ds)
  show ?case
  proof (cases "attempts d = []")
    case True
    then show ?thesis by (simp add: reviseDay_fails)
  next
    case False
    with Cons.prems have "\<exists>day \<in> set ds. attempts day = []" by auto
    from Cons.IH [OF this, of "Suc i"] obtain e where "reviseDays vt cur (Suc i) ds = Inl e" ..
    with False show ?thesis by (simp add: reviseDay_total)
  qed
qed

lemma dispatchEach_replace:
  "length new = length old \<Longrightarrow> st_days st = pre @ old \<Longrightarrow> length pre = i \<Longrightarrow>
   dispatchEach i new st = st\<lparr>st_days := pre @ new\<rparr>"
proof (induction new arbitrary: i st pre old)
  case Nil
  then show ?case by simp
next
  case (Cons d new)
  then obtain o1 old' where old: "old = o1 # old'" by (cases old) auto
  let ?st = "appReducer st (UPDATE_DAY i d)"
  have days: "st_days ?st = (pre @ [d]) @ old'"
    using Cons.prems old by (simp add: list_update_append)
  have "dispatchEach (Suc i) new ?st = ?st\<lparr>st_days := (pre @ [d]) @ new\<rparr>"
    using Cons.prems old by (intro Cons.IH [OF _ days]) simp_all
  then show ?case by simp
qed

lemma dispatchEach_all:
  "length new = length (st_days st) \<Longrightarrow> dispatchEach 0 new st = st\<lparr>st_days := new\<rparr>"
  using dispatchEach_replace [of new "st_days st" st "[]" 0] by simp

lemma actions_updateDays_eq:
  "length ds = length (st_days (app w)) \<Longrightarrow>
   actions_updateDays ds w =
     \<lparr>app = (app w)\<lparr>st_days := ds\<rparr>,
      disk = (case items (disk w) CHALLENGE_DATA of
                None \<Rightarrow> disk w
              | Some cd \<Rightarrow>
                  (disk w)\<lparr>items := (items (disk w))
                               (CHALLENGE_DATA \<mapsto> cd\<lparr>version := CURRENT_VERSION, days := ds\<rparr>),
                           oplog := oplog (disk w)
                               @ (if version cd \<noteq> CURRENT_VERSION then [SetItem CHALLENGE_DATA] else [])
                               @ [SetItem CHALLENGE_DATA]\<rparr>)\<rparr>"
  by (cases "items (disk w) CHALLENGE_DATA")
     (simp_all add: actions_updateDays_def dispatchEach_all loadChallengeData_cases updateDays_def
                    saveChallengeData_def setItem_def Let_def)

lemma saveTasks_eq:
  assumes "filter (\<lambda>task. trim (title task) \<noteq> []) editableTasks \<noteq> []"
    and "\<forall>day \<in> set (st_days (app w)). attempts day \<noteq> []"
  shows "saveTasks editableTasks w =
           (TasksModified,
            actions_updateDays
              (map (\<lambda>(j, day). revisedDay (filter (\<lambda>task. trim (title task) \<noteq> []) editableTasks)
                                   (st_currentDayIndex (app w)) j day)
                   (enumerate 0 (st_days (app w)))) w)"
  using assms by (simp add: saveTasks_def reviseDays_total Let_def)

lemma revisedDay_affected:
  assumes "attempts day \<noteq> []" "\<not> isDayCompleted day \<or> cur < int i"
  shows "index (revisedDay vt cur i day) = index day"
    and "date (revisedDay vt cur i day) = date day"
    and "attempts (revisedDay vt cur i day) \<noteq> []"
    and "butlast (attempts (revisedDay vt cur i day)) = butlast (attempts day)"
    and "last (attempts (revisedDay vt cur i day)) =
           (last (attempts day))\<lparr>tasks := map (\<lambda>newTask. newTask\<lparr>task_completed :=
                 (case find (\<lambda>t. task_id t = task_id newTask) (tasks (last (attempts day))) of
                    Some t \<Rightarrow> task_completed t | None \<Rightarrow> False)\<rparr>) vt\<rparr>"
  using assms by (simp_all add: revisedDay_def)

lemma revisedDay_protected:
  "isDayCompleted day \<Longrightarrow> int i \<le> cur \<Longrightarrow> revisedDay vt cur i day = day"
  by (simp add: revisedDay_def)

lemma saveTasks_no_valid_task:
  "filter (\<lambda>task. trim (title task) \<noteq> []) editableTasks = [] \<Longrightarrow>
   saveTasks editableTasks w = (AlertNoTasks, w)"
  by (simp add: saveTasks_def)

lemma saveTasks_attemptless_day:
  assumes "filter (\<lambda>task. trim (title task) \<noteq> []) editableTasks \<noteq> []"
    and "\<exists>day \<in> set (st_days (app w)). attempts day = []"
  shows "saveTasks editableTasks w = (AlertSaveFailed, w)"
proof -
  from reviseDays_fails [OF assms(2)] obtain e where
    "reviseDays (filter (\<lambda>task. trim (title task) \<noteq> []) editableTasks)
       (st_currentDayIndex (app w)) 0 (st_days (app w)) = Inl e" ..
  with assms(1) show ?thesis by (simp add: saveTasks_def)
qed

lemma trim_no_break_space: "trim [CHR 0xA0] = []" "trim ''  '' = []" "trim '' A2 '' = ''A2''"
  by (simp_all add: trim_def is_space_def)

text \<open>A template whose only title is a no-break space has no valid task: the handler
  alerts and changes nothing. Beside a titled row, such a row is dropped.\<close>

lemma saveTasks_no_break_space_title:
  "saveTasks [createTask ''task-1'' [CHR 0xA0] False] example_world = (AlertNoTasks, example_world)"
  "filter (\<lambda>task. trim (title task) \<noteq> [])
      [createTask ''a'' ''A2'' False, createTask ''task-1'' [CHR 0xA0] False]
     = [createTask ''a'' ''A2'' False]"
  by (simp_all add: saveTasks_def createTask_def trim_def is_space_def)

text \<open>
  C3. Let the edited template have a task with a non-blank title (one that \<^verbatim>\<open>trim\<close> does
  not empty; titles are strings of characters in the Latin-1 range), and let every day have
  an attempt. Then \<^verbatim>\<open>saveTasks\<close> succeeds and replaces the days by a list \<open>ds'\<close> of the
  same length, in which the day at position \<open>i\<close>
  \<^item> if it is not completed, or \<open>i\<close> is after the current day index: keeps index, date and
    all attempts but the last, and its last attempt is the old one with the tasks rebuilt
    from the template, each task taking the completed flag of the first old task of the
    same id, and \<open>False\<close> when there is none;
  \<^item> otherwise (completed, at or before the current day index) is the old day.
  The store, when it holds a challenge, receives all of \<open>ds'\<close> in one \<open>SetItem\<close> (after the
  one of a version migration, if the stored version was an old one).
\<close>

theorem bulk_task_revision:
  assumes valid: "filter (\<lambda>task. trim (title task) \<noteq> []) editableTasks \<noteq> []"
    and attempted: "\<forall>day \<in> set (st_days (app w)). attempts day \<noteq> []"
  shows "\<exists>ds'. length ds' = length (st_days (app w))
           \<and> saveTasks editableTasks w =
               (TasksModified,
                \<lparr>app = (app w)\<lparr>st_days := ds'\<rparr>,
                 disk = (case items (disk w) CHALLENGE_DATA of
                           None \<Rightarrow> disk w
                         | Some cd \<Rightarrow>
                             (disk w)\<lparr>items := (items (disk w))
                                  (CHALLENGE_DATA \<mapsto> cd\<lparr>version := CURRENT_VERSION, days := ds'\<rparr>),
                                oplog := oplog (disk w)
                                  @ (if version cd \<noteq> CURRENT_VERSION then [SetItem CHALLENGE_DATA] else [])
                                  @ [SetItem CHALLENGE_DATA]\<rparr>)\<rparr>)
           \<and> (\<forall>i < length ds'.
                 if \<not> isDayCompleted (st_days (app w) ! i) \<or> st_currentDayIndex (app w) < int i
                 then index (ds' ! i) = index (st_days (app w) ! i)
                    \<and> date (ds' ! i) = date (st_days (app w) ! i)
                    \<and> attempts (ds' ! i) \<noteq> []
                    \<and> butlast (attempts (ds' ! i)) = butlast (attempts (st_days (app w) ! i))
                    \<and> last (attempts (ds' ! i)) =
                        (last (attempts (st_days (app w) ! i)))
                          \<lparr>tasks := map (\<lambda>newTask. newTask\<lparr>task_completed :=
                               (case find (\<lambda>t. task_id t = task_id newTask)
                                          (tasks (last (attempts (st_days (app w) ! i)))) of
                                  Some t \<Rightarrow> task_completed t | None \<Rightarrow> False)\<rparr>)
                             (filter (\<lambda>task. trim (title task) \<noteq> []) editableTasks)\<rparr>
                 else ds' ! i = st_days (app w) ! i)"
proof -
  let ?vt = "filter (\<lambda>task. trim (title task) \<noteq> []) editableTasks"
  let ?ds = "st_days (app w)"
  let ?cur = "st_currentDayIndex (app w)"
  let ?ds' = "map (\<lambda>(j, day). revisedDay ?vt ?cur j day) (enumerate 0 ?ds)"
  have len: "length ?ds' = length ?ds" by simp
  have nth: "?ds' ! i = revisedDay ?vt ?cur i (?ds ! i)" if "i < length ?ds" for i
    using that by (simp add: nth_enumerate_eq)
  have each: "if \<not> isDayCompleted (?ds ! i) \<or> ?cur < int i
                 then index (?ds' ! i) = index (?ds ! i)
                    \<and> date (?ds' ! i) = date (?ds ! i)
                    \<and> attempts (?ds' ! i) \<noteq> []
                    \<and> butlast (attempts (?ds' ! i)) = butlast (attempts (?ds ! i))
                    \<and> last (attempts (?ds' ! i)) =
                        (last (attempts (?ds ! i)))
                          \<lparr>tasks := map (\<lambda>newTask. newTask\<lparr>task_completed :=
                               (case find (\<lambda>t. task_id t = task_id newTask)
                                          (tasks (last (attempts (?ds ! i)))) of
                                  Some t \<Rightarrow> task_completed t | None \<Rightarrow> False)\<rparr>) ?vt\<rparr>
                 else ?ds' ! i = ?ds ! i" if i: "i < length ?ds'" for i
  proof -
    from i have i': "i < length ?ds" by simp
    with attempted have ne: "attempts (?ds ! i) \<noteq> []" by simp
    show ?thesis
    proof (cases "\<not> isDayCompleted (?ds ! i) \<or> ?cur < int i")
      case True
      with revisedDay_affected [OF ne True, of ?vt] nth [OF i'] show ?thesis by simp
    next
      case False
      then have "revisedDay ?vt ?cur i (?ds ! i) = ?ds ! i"
        by (intro revisedDay_protected) auto
      with False nth [OF i'] show ?thesis by simp
    qed
  qed
  have save: "saveTasks editableTasks w = (TasksModified, actions_updateDays ?ds' w)"
    using saveTasks_eq [OF valid attempted] .
  show ?thesis
    apply (rule exI [of _ ?ds'])
    apply (intro conjI)
      apply (rule len)
     apply (simp only: save actions_updateDays_eq [OF len])
    using each apply blast
    done
qed

theorem bulk_task_revision_witness:
  "filter (\<lambda>task. trim (title task) \<noteq> []) example_template \<noteq> []
   \<and> list_all (\<lambda>day. attempts day \<noteq> []) (st_days (app example_world))
   \<and> fst (saveTasks example_template example_world) = TasksModified
   \<and> map (\<lambda>day. map (\<lambda>t. (task_id t, title t, task_completed t)) (tasks (last (attempts day))))
         (st_days (app (snd (saveTasks example_template example_world))))
       = [[(''a'', ''A'', True)],
          [(''a'', ''A2'', True), (''b'', ''B'', False)],
          [(''a'', ''A2'', False), (''b'', ''B'', False)]]
   \<and> oplog (disk (snd (saveTasks example_template example_world))) = [SetItem ''75hard_state_v1'']"
proof -
  have h1: "filter (\<lambda>task. trim (title task) \<noteq> []) example_template \<noteq> []"
    by (simp add: example_template_def createTask_def trim_def is_space_def)
  have h2: "\<forall>day \<in> set (st_days (app example_world)). attempts day \<noteq> []"
    by (simp add: example_world_def example_days_def)
  from bulk_task_revision [OF h1 h2] obtain ds' where
    len: "length ds' = length (st_days (app example_world))"
    and res: "saveTasks example_template example_world =
               (TasksModified,
                \<lparr>app = (app example_world)\<lparr>st_days := ds'\<rparr>,
                 disk = (case items (disk example_world) CHALLENGE_DATA of
                           None \<Rightarrow> disk example_world
                         | Some cd \<Rightarrow>
                             (disk example_world)\<lparr>items := (items (disk example_world))
                                  (CHALLENGE_DATA \<mapsto> cd\<lparr>version := CURRENT_VERSION, days := ds'\<rparr>),
                                oplog := oplog (disk example_world)
                                  @ (if version cd \<noteq> CURRENT_VERSION then [SetItem CHALLENGE_DATA] else [])
                                  @ [SetItem CHALLENGE_DATA]\<rparr>)\<rparr>)"
    by blast
  have log: "oplog (disk (snd (saveTasks example_template example_world))) = [SetItem ''75hard_state_v1'']"
    unfolding res by (simp add: example_world_def CHALLENGE_DATA_def CURRENT_VERSION_def)
  have days: "map (\<lambda>day. map (\<lambda>t. (task_id t, title t, task_completed t)) (tasks (last (attempts day))))
         (st_days (app (snd (saveTasks example_template example_world))))
       = [[(''a'', ''A'', True)],
          [(''a'', ''A2'', True), (''b'', ''B'', False)],
          [(''a'', ''A2'', False), (''b'', ''B'', False)]]"
    by (simp add: saveTasks_def example_template_def createTask_def trim_def is_space_def
          example_world_def example_days_def reviseDay_def isDayCompleted_def getCurrentAttempt_conv
          updateCurrentAttempt_def createAttempt_def actions_updateDays_def loadChallengeData_cases
          Let_def)
  show ?thesis
    using h1 h2 log days unfolding res by (simp add: list_all_iff)
qed

text \<open>
  C5, as the claim has it, fails after a bulk revision: the current day of the example,
  revised to the template with the tasks \<open>a\<close> and \<open>b\<close>, gets from \<^verbatim>\<open>addNewAttempt\<close> an
  attempt with the four built-in tasks.
\<close>

theorem new_attempt_ignores_revised_template:
  "map task_id (tasks (last (attempts (st_days (app (snd (saveTasks example_template example_world))) ! 1))))
     = [''a'', ''b'']
   \<and> map task_id (tasks (last (attempts (addNewAttempt
         (st_days (app (snd (saveTasks example_template example_world))) ! 1)))))
     = [''workout'', ''rawdogging'', ''reading'', ''water'']"
  by (simp add: saveTasks_def example_template_def createTask_def trim_def is_space_def
          example_world_def example_days_def reviseDay_def isDayCompleted_def getCurrentAttempt_conv
          updateCurrentAttempt_def createAttempt_def actions_updateDays_def loadChallengeData_cases
          addNewAttempt_def createDefaultTasks_def DEFAULT_TASKS_def Let_def)

section \<open>The day unlock policy\<close>

lemma list_all_take_nth:
  "list_all P (take n xs) \<longleftrightarrow> (\<forall>i < n. i < length xs \<longrightarrow> P (xs ! i))"
proof
  assume h: "list_all P (take n xs)"
  show "\<forall>i < n. i < length xs \<longrightarrow> P (xs ! i)"
  proof (intro allI impI)
    fix i assume "i < n" "i < length xs"
    then have "take n xs ! i = xs ! i" "i < length (take n xs)" by simp_all
    then have "xs ! i \<in> set (take n xs)" by (metis nth_mem)
    with h show "P (xs ! i)" by (simp add: list_all_iff)
  qed
next
  assume h: "\<forall>i < n. i < length xs \<longrightarrow> P (xs ! i)"
  show "list_all P (take n xs)"
    unfolding list_all_iff
  proof
    fix x assume "x \<in> set (take n xs)"
    then obtain i where "i < length (take n xs)" "take n xs ! i = x"
      by (auto simp: in_set_conv_nth)
    with h show "P x" by auto
  qed
qed

lemma getMaxUnlockedDay_range:
  "getMaxUnlockedDay rt (Some start) = Some m \<Longrightarrow> 1 \<le> m \<and> m \<le> 75"
  by (auto simp: getMaxUnlockedDay_def Let_def)

text \<open>
  C4. For a start date that the runtime parses to the instant \<open>start\<close>,
  \<^verbatim>\<open>getMaxUnlockedDay\<close> is \<open>max 1 (floor ((midnight now - midnight start) / 86400000) + 1)\<close>
  capped at 75. With that start date in the state, pressing the card of the 1-based day
  \<open>d\<close> navigates to it exactly when \<open>d\<close> is at most that number and every day before it
  (positions \<open>0\<close> to \<open>d - 2\<close>, the days \<open>1\<close> to \<open>d - 1\<close>) is completed, and does nothing
  otherwise. In a local time at any constant offset from UTC, with the start date
  2024-01-01T00:00 and the clock at 2024-01-03T08:00, the number is 3 and pressing day 4
  does nothing, whatever the state.
\<close>

theorem day_unlock_policy:
  fixes d :: nat
  assumes "st_startDate state = Some str" and "str \<noteq> []" and "parseDate rt str = Some start"
    and "0 < d"
  shows "getMaxUnlockedDay rt (Some start) =
           Some (min 75 (max 1 ((startOfDay rt (clock rt) - startOfDay rt start) div 86400000 + 1)))
       \<and> (handleDayPress rt state (d - 1) = [SET_CURRENT_DAY (int d - 1)] \<longleftrightarrow>
            int d \<le> min 75 (max 1 ((startOfDay rt (clock rt) - startOfDay rt start) div 86400000 + 1))
            \<and> (\<forall>i < d - 1. i < length (st_days state) \<longrightarrow> isDayCompleted (st_days state ! i)))
       \<and> (handleDayPress rt state (d - 1) = [] \<longleftrightarrow>
            \<not> (int d \<le> min 75 (max 1 ((startOfDay rt (clock rt) - startOfDay rt start) div 86400000 + 1))
               \<and> (\<forall>i < d - 1. i < length (st_days state) \<longrightarrow> isDayCompleted (st_days state ! i))))
       \<and> getMaxUnlockedDay
            \<lparr>clock = 1704268800000 - offset,
             parseDate = (\<lambda>s. Some (1704067200000 - offset)),
             startOfDay = fixedOffsetStartOfDay offset\<rparr>
            (Some (1704067200000 - offset)) = Some 3
       \<and> handleDayPress
            \<lparr>clock = 1704268800000 - offset,
             parseDate = (\<lambda>s. Some (1704067200000 - offset)),
             startOfDay = fixedOffsetStartOfDay offset\<rparr>
            anyState 3 = []"
proof -
  let ?m = "min 75 (max 1 ((startOfDay rt (clock rt) - startOfDay rt start) div 86400000 + 1))"
  have m: "getMaxUnlockedDay rt (Some start) = Some ?m"
    by (simp add: getMaxUnlockedDay_def MS_PER_DAY_def Let_def)
  have idx: "int (d - 1) + 1 = int d" "int (d - 1) = int d - 1"
    using \<open>0 < d\<close> by simp_all
  have unlocked: "isDayUnlockedByTime rt (int (d - 1) + 1) (parseDate rt str) = (int d \<le> ?m)"
  proof -
    have "int (d - 1) + 1 = int d" using \<open>0 < d\<close> by simp
    then show ?thesis
      by (simp only: isDayUnlockedByTime_def assms(3) m option.case)
  qed
  define U where "U = isDayUnlockedByTime rt (int (d - 1) + 1) (parseDate rt str)"
  define A where "A = list_all isDayCompleted (take (d - 1) (st_days state))"
  have "handleDayPress rt state (d - 1) = (if U \<and> A then [SET_CURRENT_DAY (int (d - 1))] else [])"
    using assms(1,2) by (simp add: handleDayPress_def Let_def U_def A_def)
  moreover have "U = (int d \<le> ?m)"
    unfolding U_def by (rule unlocked)
  moreover have "A = (\<forall>i < d - 1. i < length (st_days state) \<longrightarrow> isDayCompleted (st_days state ! i))"
    unfolding A_def by (rule list_all_take_nth)
  ultimately have nav: "handleDayPress rt state (d - 1) =
               (if int d \<le> ?m \<and> (\<forall>i < d - 1. i < length (st_days state) \<longrightarrow> isDayCompleted (st_days state ! i))
                then [SET_CURRENT_DAY (int d - 1)] else [])"
    by (simp only: idx(2))
  let ?rt = "\<lparr>clock = 1704268800000 - offset,
             parseDate = (\<lambda>s. Some (1704067200000 - offset)),
             startOfDay = fixedOffsetStartOfDay offset\<rparr>"
  have s1: "fixedOffsetStartOfDay offset (1704067200000 - offset) = 1704067200000 - offset"
    by (simp add: fixedOffsetStartOfDay_def MS_PER_DAY_def)
  have s2: "fixedOffsetStartOfDay offset (1704268800000 - offset) = 1704240000000 - offset"
    by (simp add: fixedOffsetStartOfDay_def MS_PER_DAY_def)
  have ex: "getMaxUnlockedDay ?rt (Some (1704067200000 - offset)) = Some 3"
    by (simp add: getMaxUnlockedDay_def s1 s2 MS_PER_DAY_def Let_def)
  have locked: "handleDayPress ?rt anyState 3 = []"
    by (cases "st_startDate anyState")
       (simp_all add: handleDayPress_def isDayUnlockedByTime_def ex Let_def)
  show ?thesis
    using m nav ex locked by simp
qed

theorem day_unlock_policy_witness:
  "handleDayPress
     \<lparr>clock = 1704268800000 - 3600000, parseDate = (\<lambda>s. Some (1704067200000 - 3600000)),
      startOfDay = fixedOffsetStartOfDay 3600000\<rparr>
     \<lparr>st_days = [(addNewAttempt ^^ 2) (example_days ! 0), example_days ! 0, example_days ! 1],
      st_currentDayIndex = 0, st_startDate = Some ''2024-01-01T00:00'', isLoading = False,
      st_error = None\<rparr> (3 - 1) = [SET_CURRENT_DAY 2]
   \<and> getMaxUnlockedDay
       \<lparr>clock = 1704268800000 - 3600000, parseDate = (\<lambda>s. Some (1704067200000 - 3600000)),
        startOfDay = fixedOffsetStartOfDay 3600000\<rparr> (Some (1704067200000 - 3600000)) = Some 3"
proof -
  let ?rt = "\<lparr>clock = 1704268800000 - 3600000, parseDate = (\<lambda>s. Some (1704067200000 - 3600000)),
      startOfDay = fixedOffsetStartOfDay 3600000\<rparr>"
  let ?st = "\<lparr>st_days = [(addNewAttempt ^^ 2) (example_days ! 0), example_days ! 0, example_days ! 1],
      st_currentDayIndex = 0, st_startDate = Some ''2024-01-01T00:00'', isLoading = False,
      st_error = None\<rparr>"
  have a: "st_startDate ?st = Some ''2024-01-01T00:00''" "''2024-01-01T00:00'' \<noteq> []"
    "parseDate ?rt ''2024-01-01T00:00'' = Some (1704067200000 - 3600000)" "0 < (3::nat)"
    by simp_all
  have c: "isDayCompleted (example_days ! 0)" "isDayCompleted ((addNewAttempt ^^ 2) (example_days ! 0))"
    by (simp_all add: example_days_def isDayCompleted_def numeral_2_eq_2 addNewAttempt_def)
  have all: "\<forall>i < (3::nat) - 1. i < length (st_days ?st) \<longrightarrow> isDayCompleted (st_days ?st ! i)"
    using c by (auto simp: less_Suc_eq numeral_2_eq_2 numeral_3_eq_3)
  have m: "(startOfDay ?rt (clock ?rt) - startOfDay ?rt (1704067200000 - 3600000)) div 86400000 = 2"
    by (simp add: fixedOffsetStartOfDay_def MS_PER_DAY_def)
  from day_unlock_policy [OF a, where offset = 3600000] all m
  show ?thesis by simp
qed

section \<open>Import of a backup\<close>

lemma validateImportData_wrong_length:
  assumes "getProp payload ''challengeData'' = Some challengeData"
    and "getProp challengeData ''days'' = Some (JArr ds)"
    and "length ds \<noteq> 75"
  shows "\<not> isValid (validateImportData payload)"
  using assms by (simp add: validateImportData_def Let_def)

lemma importData_invalid:
  "\<not> isValid (validateImportData payload) \<Longrightarrow>
   importData (Parsed payload) choice s =
     (\<lparr>success = False, result_message = message (validateImportData payload)\<rparr>, s)"
  by (simp add: importData_def Let_def)

text \<open>
  C6. A parsed backup whose \<^verbatim>\<open>challengeData.days\<close> is an array of a length other than 75
  does not pass the validation; \<^verbatim>\<open>importData\<close> then answers with a failure carrying the
  message of the validation, which is the one about the number of days when the rest of
  the payload is well formed, and leaves the store as it was, content and operation log.
  The same holds for every payload that fails the validation: nothing is cleared or
  written before the validation has passed.
\<close>

theorem import_rejects_wrong_day_count:
  assumes "getProp payload ''challengeData'' = Some challengeData"
    and "getProp challengeData ''days'' = Some (JArr ds)"
    and "length ds \<noteq> 75"
  shows "\<not> isValid (validateImportData payload)
       \<and> importData (Parsed payload) choice s =
           (\<lparr>success = False, result_message = message (validateImportData payload)\<rparr>, s)
       \<and> (is_number (getProp payload ''version'') \<and> is_string (getProp payload ''exportDate'')
            \<and> truthy (getProp payload ''exportDate'') \<and> truthy (Some challengeData)
            \<and> is_number (getProp challengeData ''version'') \<and> truthy (getProp challengeData ''startDate'')
            \<and> is_number (getProp challengeData ''currentDayIndex'')
          \<longrightarrow> message (validateImportData payload) = ''Invalid file format: incorrect number of days.'')
       \<and> (\<forall>other. \<not> isValid (validateImportData other) \<longrightarrow>
             importData (Parsed other) choice s =
               (\<lparr>success = False, result_message = message (validateImportData other)\<rparr>, s))"
proof -
  have inv: "\<not> isValid (validateImportData payload)"
    using assms by (rule validateImportData_wrong_length)
  have msg: "message (validateImportData payload) = ''Invalid file format: incorrect number of days.''"
    if "is_number (getProp payload ''version'')" "is_string (getProp payload ''exportDate'')"
       "truthy (getProp payload ''exportDate'')" "truthy (Some challengeData)"
       "is_number (getProp challengeData ''version'')" "truthy (getProp challengeData ''startDate'')"
       "is_number (getProp challengeData ''currentDayIndex'')"
  proof -
    have "truthy (Some payload)"
      using assms(1) by (cases payload) simp_all
    with that assms show ?thesis
      by (simp add: validateImportData_def Let_def)
  qed
  show ?thesis
    using inv msg importData_invalid by blast
qed

theorem import_rejects_wrong_day_count_witness:
  "importData (Parsed (example_backup 74)) Import
     \<lparr>items = [CHALLENGE_DATA \<mapsto> JStr ''the stored challenge''], oplog = []\<rparr>
   = (\<lparr>success = False, result_message = ''Invalid file format: incorrect number of days.''\<rparr>,
      \<lparr>items = [CHALLENGE_DATA \<mapsto> JStr ''the stored challenge''], oplog = []\<rparr>)
   \<and> oplog (snd (importData (Parsed (example_backup 75)) Import
        \<lparr>items = [CHALLENGE_DATA \<mapsto> JStr ''the stored challenge''], oplog = []\<rparr>))
     = [RemoveItem ''75hard_state_v1'', RemoveItem ''75hard_start_date_v1'', SetItem ''75hard_state_v1'']"
proof -
  let ?cd = "JObj [(''version'', JNum (Finite False 1 0)),
                    (''startDate'', JStr ''2024-01-01T00:00:00.000Z''),
                    (''days'', JArr (replicate 74 JNull)),
                    (''currentDayIndex'', JNum (Finite False 1 0))]"
  have a: "getProp (example_backup 74) ''challengeData'' = Some ?cd"
    "getProp ?cd ''days'' = Some (JArr (replicate 74 JNull))"
    "length (replicate 74 JNull) \<noteq> 75"
    by (simp_all add: example_backup_def)
  have ok: "isValid (validateImportData (example_backup 75))"
    by (simp add: validateImportData_def example_backup_def Let_def)
  have imp: "oplog (snd (importData (Parsed (example_backup 75)) Import
        \<lparr>items = [CHALLENGE_DATA \<mapsto> JStr ''the stored challenge''], oplog = []\<rparr>))
     = [RemoveItem ''75hard_state_v1'', RemoveItem ''75hard_start_date_v1'', SetItem ''75hard_state_v1'']"
    using ok by (simp add: importData_def Let_def clearChallengeData_def saveChallengeData_def
        removeItem_def setItem_def CHALLENGE_DATA_def CHALLENGE_START_DATE_def)
  from import_rejects_wrong_day_count [OF a, of Import
      "\<lparr>items = [CHALLENGE_DATA \<mapsto> JStr ''the stored challenge''], oplog = []\<rparr>"] imp
  show ?thesis
    by (simp add: example_backup_def)
qed

end
